theory Spec2Isabelle
  imports Main
begin

section \<open>Values, buffers and thrown values\<close>

text \<open>
  A \<open>Buffer\<close> is a sequence of bytes; a \<^typ>\<open>char\<close> is one byte, read as a number by
  \<^const>\<open>of_char\<close> and written by \<^const>\<open>char_of\<close>. JavaScript strings are kept as
  their UTF-8 bytes, so \<open>Buffer.from(s)\<close> is the identity on them.
\<close>

type_synonym bytes = "char list"

text \<open>
  \<open>unknown\<close> values: what \<open>JSON.parse\<close> can produce, and \<open>undefined\<close> for a
  property that is not there. Numbers are kept to the integers. An object is the list
  of its own properties in insertion order, with distinct keys.
\<close>

datatype jsvalue =
    Undefined
  | Null
  | Bool bool
  | Num int
  | Str string
  | Arr "jsvalue list"
  | Obj "(string \<times> jsvalue) list"

type_synonym jsobj = "(string \<times> jsvalue) list"

text \<open>Property access \<open>o.k\<close> on a parsed object: \<open>undefined\<close> when \<open>k\<close> is absent.\<close>

definition property :: "jsobj \<Rightarrow> string \<Rightarrow> jsvalue" where
  "property obj k = (case map_of obj k of None \<Rightarrow> Undefined | Some v \<Rightarrow> v)"

text \<open>\<open>!v\<close>: the falsy values among those above.\<close>

fun falsy :: "jsvalue \<Rightarrow> bool" where
  "falsy Undefined = True"
| "falsy Null = True"
| "falsy (Bool b) = (\<not> b)"
| "falsy (Num n) = (n = 0)"
| "falsy (Str s) = (s = [])"
| "falsy (Arr vs) = False"
| "falsy (Obj kvs) = False"

subsection \<open>errors.ts\<close>

text \<open>The class of an error object: \<open>VaultError\<close> and its seven subclasses.\<close>

datatype error_class =
    VaultError
  | AuthError
  | AccessDenied
  | CredentialNotFound
  | VaultLocked
  | LeaseExpired
  | RateLimited
  | SessionExpired

record vault_error =
  cls :: error_class
  message :: string
  code :: string
  detail :: "string option"
  suggestion :: "string option"
  docsUrl :: "string option"
  err_context :: jsobj

text \<open>
  The \<open>opts\<close> argument of the constructors. \<open>None\<close> is a property that is absent or
  \<open>undefined\<close>; every caller in the repository passes either no \<open>code\<close> key or a
  string, so the two need not be told apart.
\<close>

record error_opts =
  o_code :: "string option"
  o_detail :: "string option"
  o_suggestion :: "string option"
  o_docsUrl :: "string option"
  o_context :: "jsobj option"

definition no_opts :: error_opts where
  "no_opts = \<lparr>o_code = None, o_detail = None, o_suggestion = None, o_docsUrl = None,
     o_context = None\<rparr>"

definition VaultError_new :: "string \<Rightarrow> error_opts \<Rightarrow> vault_error" where
  "VaultError_new msg opts =
     \<lparr>cls = VaultError,
      message = msg,
      code = (case o_code opts of None \<Rightarrow> ''UNKNOWN'' | Some c \<Rightarrow> c),
      detail = o_detail opts,
      suggestion = o_suggestion opts,
      docsUrl = o_docsUrl opts,
      err_context = (case o_context opts of None \<Rightarrow> [] | Some c \<Rightarrow> c)\<rparr>"

text \<open>
  A subclass constructor: \<open>super(message, { code: C, ...opts })\<close>, then
  \<open>this.name = ...\<close>. The spread lets a \<open>code\<close> in \<open>opts\<close> win over the default.
\<close>

fun default_code :: "error_class \<Rightarrow> string" where
  "default_code VaultError = ''UNKNOWN''"
| "default_code AuthError = ''AUTH_FAILED''"
| "default_code AccessDenied = ''ACCESS_DENIED''"
| "default_code CredentialNotFound = ''CREDENTIAL_NOT_FOUND''"
| "default_code VaultLocked = ''VAULT_LOCKED''"
| "default_code LeaseExpired = ''LEASE_EXPIRED''"
| "default_code RateLimited = ''RATE_LIMITED''"
| "default_code SessionExpired = ''SESSION_EXPIRED''"

definition error_new :: "error_class \<Rightarrow> string \<Rightarrow> error_opts \<Rightarrow> vault_error" where
  "error_new c msg opts =
     (if c = VaultError then VaultError_new msg opts
      else (VaultError_new msg
              (opts\<lparr>o_code := (case o_code opts of None \<Rightarrow> Some (default_code c)
                                | Some k \<Rightarrow> Some k)\<rparr>))\<lparr>cls := c\<rparr>)"

text \<open>The own properties of the object literal \<open>CODE_TO_ERROR\<close>.\<close>

definition CODE_TO_ERROR :: "(string \<times> error_class) list" where
  "CODE_TO_ERROR =
     [(''AUTH_FAILED'', AuthError),
      (''ACCESS_DENIED'', AccessDenied),
      (''CREDENTIAL_NOT_FOUND'', CredentialNotFound),
      (''VAULT_LOCKED'', VaultLocked),
      (''LEASE_EXPIRED'', LeaseExpired),
      (''RATE_LIMITED'', RateLimited),
      (''SESSION_EXPIRED'', SessionExpired)]"

text \<open>
  \<open>CODE_TO_ERROR\<close> is an ordinary object, so \<open>CODE_TO_ERROR[code]\<close> also finds what
  it inherits from \<open>Object.prototype\<close>: the function \<open>Object\<close> under
  \<open>constructor\<close>, the prototype object itself under \<open>__proto__\<close>, and built-in
  methods, which are not constructors, under the other names.
\<close>

datatype inherited = ObjectFunction | BuiltinMethod | PrototypeObject

definition Object_prototype :: "(string \<times> inherited) list" where
  "Object_prototype =
     [(''constructor'', ObjectFunction),
      (''__defineGetter__'', BuiltinMethod),
      (''__defineSetter__'', BuiltinMethod),
      (''hasOwnProperty'', BuiltinMethod),
      (''__lookupGetter__'', BuiltinMethod),
      (''__lookupSetter__'', BuiltinMethod),
      (''isPrototypeOf'', BuiltinMethod),
      (''propertyIsEnumerable'', BuiltinMethod),
      (''toString'', BuiltinMethod),
      (''valueOf'', BuiltinMethod),
      (''__proto__'', PrototypeObject),
      (''toLocaleString'', BuiltinMethod)]"

datatype looked_up = Class error_class | Inherited inherited

definition CODE_TO_ERROR_get :: "string \<Rightarrow> looked_up option" where
  "CODE_TO_ERROR_get k =
     (case map_of CODE_TO_ERROR k of
        Some c \<Rightarrow> Some (Class c)
      | None \<Rightarrow> map_option Inherited (map_of Object_prototype k))"

text \<open>
  What a \<open>throw\<close> can carry here: an error of errors.ts, one of the platform's own
  errors, or the \<open>String\<close> wrapper object that \<open>new Object(message, opts)\<close> returns.
\<close>

datatype thrown =
    Vault vault_error
  | TypeError string
  | RangeError string
  | SyntaxError string
  | SystemError string
  | StringObject string

subsection \<open>types.ts\<close>

text \<open>
  \<open>StructuredError\<close> declares \<open>code\<close> and \<open>message\<close> as always present, but
  \<open>raiseOnError\<close> defends against their absence, so every field is optional here.
\<close>

record StructuredError =
  s_code :: "string option"
  s_message :: "string option"
  s_detail :: "string option"
  s_suggestion :: "string option"
  s_docs_url :: "string option"
  s_context :: "jsobj option"

datatype wire_error = ErrorString string | ErrorObject StructuredError

record RpcRequest =
  req_id :: nat
  req_method :: string
  req_params :: jsobj

text \<open>\<open>error\<close> is \<open>None\<close> when the field is absent or \<open>null\<close> (\<open>err == null\<close>).\<close>

record RpcResponse =
  resp_id :: nat
  result :: "jsobj option"
  error :: "wire_error option"

section \<open>protocol.ts\<close>

definition MAX_MESSAGE_SIZE :: nat where
  "MAX_MESSAGE_SIZE = 4 * 1024 * 1024"

text \<open>
  \<open>buf.writeUInt32BE(n)\<close> on a fresh 4-byte buffer: a \<open>RangeError\<close> when \<open>n\<close> does
  not fit 32 bits. \<open>buf.readUInt32BE(0)\<close>: a \<open>RangeError\<close> when fewer than 4 bytes
  are there.
\<close>

definition writeUInt32BE :: "nat \<Rightarrow> thrown + bytes" where
  "writeUInt32BE n =
     (if n > 4294967295 then Inl (RangeError ''ERR_OUT_OF_RANGE'')
      else Inr [char_of (n div 16777216 mod 256), char_of (n div 65536 mod 256),
                char_of (n div 256 mod 256), char_of (n mod 256)])"

fun readUInt32BE :: "bytes \<Rightarrow> thrown + nat" where
  "readUInt32BE (b0 # b1 # b2 # b3 # rest) =
     Inr (of_char b0 * 16777216 + of_char b1 * 65536 + of_char b2 * 256 + of_char b3)"
| "readUInt32BE _ = Inl (RangeError ''ERR_OUT_OF_RANGE'')"

text \<open>
  \<open>encodeFrame\<close> and \<open>decodeFrame\<close>. \<open>JSON.stringify\<close> followed by \<open>Buffer.from\<close>,
  and \<open>toString\<close> followed by \<open>JSON.parse\<close>, belong to the platform: they are the
  parameters \<open>stringify\<close> and \<open>parse\<close>, the latter with the \<open>SyntaxError\<close> it may
  throw.
\<close>

definition encodeFrame :: "('j \<Rightarrow> bytes) \<Rightarrow> 'j \<Rightarrow> thrown + bytes" where
  "encodeFrame stringify obj =
     (let payload = stringify obj
      in case writeUInt32BE (length payload) of
           Inl e \<Rightarrow> Inl e
         | Inr header \<Rightarrow> Inr (header @ payload))"

definition internal_error :: "string \<Rightarrow> thrown" where
  "internal_error msg = Vault (VaultError_new msg (no_opts\<lparr>o_code := Some ''INTERNAL_ERROR''\<rparr>))"

definition decodeFrame :: "(bytes \<Rightarrow> thrown + 'j) \<Rightarrow> bytes \<Rightarrow> thrown + ('j \<times> bytes)" where
  "decodeFrame parse data =
     (if length data < 4 then Inl (internal_error ''Incomplete frame header'')
      else case readUInt32BE data of
             Inl e \<Rightarrow> Inl e
           | Inr len \<Rightarrow>
               (if len > MAX_MESSAGE_SIZE then Inl (internal_error ''Response too large'')
                else if length data < 4 + len then Inl (internal_error ''Incomplete frame body'')
                else (case parse (take len (drop 4 data)) of
                        Inl e \<Rightarrow> Inl e
                      | Inr obj \<Rightarrow> Inr (obj, drop (4 + len) data))))"

text \<open>
  \<open>new Cls(message, opts)\<close> for what the table lookup found: a class of errors.ts
  builds its error; \<open>Object\<close> called with a string returns the \<open>String\<close> wrapper of
  it; anything else is not a constructor. The outcome is what \<open>throw\<close> then carries.
\<close>

definition new_Cls :: "looked_up \<Rightarrow> string \<Rightarrow> error_opts \<Rightarrow> thrown" where
  "new_Cls c msg opts =
     (case c of
        Class k \<Rightarrow> Vault (error_new k msg opts)
      | Inherited ObjectFunction \<Rightarrow> StringObject msg
      | Inherited BuiltinMethod \<Rightarrow> TypeError ''Cls is not a constructor''
      | Inherited PrototypeObject \<Rightarrow> TypeError ''Cls is not a constructor'')"

text \<open>\<open>raiseOnError\<close>: \<open>None\<close> when it returns, otherwise what it throws.\<close>

definition raiseOnError :: "RpcResponse \<Rightarrow> thrown option" where
  "raiseOnError resp =
     (case error resp of
        None \<Rightarrow> None
      | Some (ErrorString err) \<Rightarrow> Some (Vault (VaultError_new err no_opts))
      | Some (ErrorObject structured) \<Rightarrow>
          (let code = (case s_code structured of None \<Rightarrow> ''INTERNAL_ERROR'' | Some c \<Rightarrow> c);
               Cls = (case CODE_TO_ERROR_get code of None \<Rightarrow> Class VaultError | Some c \<Rightarrow> c)
           in Some (new_Cls Cls
                (case s_message structured of None \<Rightarrow> ''Unknown error'' | Some m \<Rightarrow> m)
                \<lparr>o_code = Some code,
                 o_detail = s_detail structured,
                 o_suggestion = s_suggestion structured,
                 o_docsUrl = s_docs_url structured,
                 o_context = Some (case s_context structured of None \<Rightarrow> [] | Some c \<Rightarrow> c)\<rparr>)))"

section \<open>client.ts\<close>

subsection \<open>The platform, the transport and the server\<close>

text \<open>
  The functions of Node and of tweetnacl that the client calls are parameters of the
  model, collected in one record. \<open>JSON_stringify\<close> is \<open>JSON.stringify\<close> followed by
  \<open>Buffer.from\<close>, on a request; \<open>JSON_parse\<close> is \<open>toString\<close> followed by
  \<open>JSON.parse\<close> and the unchecked cast to \<open>RpcResponse\<close>. \<open>Buffer_from_hex v\<close> is
  \<open>Buffer.from(v, "hex")\<close>, which throws a \<open>TypeError\<close> on most values that are not
  strings.

  What \<open>JSON.parse\<close> returns, as far as \<open>onData\<close> looks at it: an object with a
  numeric \<open>id\<close>, taken at its declared type; \<open>null\<close>, on which reading \<open>id\<close>
  throws; or any other value, whose \<open>id\<close> is \<open>undefined\<close> or not a number and so
  is no key of \<open>pending\<close>.
\<close>

datatype parsed = Response RpcResponse | NullValue | NoId

record SignKeyPair =
  publicKey :: bytes
  secretKey :: bytes

record platform =
  JSON_stringify :: "RpcRequest \<Rightarrow> bytes"
  JSON_parse :: "bytes \<Rightarrow> thrown + parsed"
  homedir :: string
  path_join :: "string \<Rightarrow> string \<Rightarrow> string"
  readFileSync :: "string \<Rightarrow> thrown + string"
  trim :: "string \<Rightarrow> string"
  Buffer_from_hex :: "jsvalue \<Rightarrow> thrown + bytes"
  toString_hex :: "bytes \<Rightarrow> string"
  toString_utf8 :: "bytes \<Rightarrow> string"
  keyPair_fromSeed :: "bytes \<Rightarrow> SignKeyPair"
  sign_detached :: "bytes \<Rightarrow> bytes \<Rightarrow> bytes"

text \<open>The state of a promise; \<open>Pending\<close> at the end of a run is one that never settles.\<close>

datatype 'a promise = Pending | Rejected thrown | Resolved 'a

text \<open>
  What the transport does with a connection attempt, and what the daemon answers to a
  request (\<open>None\<close>: no response frame for it ever arrives). Request ids are never
  reused, so a function of the request describes any daemon over one run.
\<close>

datatype connect_options = PathOptions string | TcpOptions string nat

text \<open>
  \<open>net.createConnection\<close> validates its options before it returns the socket: a port
  above 65535 is a \<open>RangeError\<close>, thrown at once.
\<close>

definition createConnection :: "connect_options \<Rightarrow> thrown + connect_options" where
  "createConnection opts =
     (case opts of
        PathOptions p \<Rightarrow> Inr opts
      | TcpOptions h p \<Rightarrow>
          if p > 65535 then Inl (RangeError ''ERR_SOCKET_BAD_PORT'') else Inr opts)"

datatype net_outcome = Connects | Fails thrown | Hangs

type_synonym network = "connect_options \<Rightarrow> net_outcome"

type_synonym server = "RpcRequest \<Rightarrow> RpcResponse option"

subsection \<open>The socket and the client object\<close>

text \<open>
  The closures that \<open>rawConnect\<close> registers on the socket: \<open>(chunk) => this.onData(chunk)\<close>,
  the \<open>reject\<close> of the connection promise, and the \<open>once("connect", ...)\<close> callback.
\<close>

datatype listener = OnDataListener | RejectListener | ConnectListener

record Socket =
  options :: connect_options
  data_listeners :: "listener list"
  error_listeners :: "listener list"
  connect_listeners :: "listener list"
  written :: "bytes list"

datatype ConnectionTarget = SocketPath string | HostPort string nat

text \<open>
  The fields of \<open>SanctumClient\<close>. TypeScript's types are erased at run time and the
  casts of results are unchecked, so \<open>sessionId\<close> and \<open>leases\<close> hold whatever value the
  daemon's JSON carried. \<open>pending\<close> is the set of keys of the map of that name; the
  promise that each entry's closures settle is \<open>settled\<close> at the same key. The last
  three fields are not in the class: \<open>settled\<close>, the promise returned by
  \<open>rawConnect\<close>, and a log of the invocations of \<open>call\<close>.
\<close>

record SanctumClient =
  agentName :: string
  socketPath :: "string option"
  host :: "string option"
  port :: "nat option"
  keyPath :: "string option"
  socket :: "Socket option"
  sessionId :: jsvalue
  reqId :: nat
  leases :: "jsvalue list"
  buffer :: bytes
  pending :: "nat set"
  settled :: "nat \<Rightarrow> jsobj promise"
  connecting :: "unit promise"
  invoked :: "(string \<times> jsobj) list"

record client_opts =
  opt_socketPath :: "string option"
  opt_host :: "string option"
  opt_port :: "nat option"
  opt_keyPath :: "string option"

definition DEFAULT_SOCKET :: string where
  "DEFAULT_SOCKET = ''~/.sanctum/vault.sock''"

definition DEFAULT_KEY_DIR :: string where
  "DEFAULT_KEY_DIR = ''~/.sanctum/keys''"

definition expandHome :: "platform \<Rightarrow> string \<Rightarrow> string" where
  "expandHome pf p = (case p of
       c # rest \<Rightarrow> if c = CHR ''~'' then path_join pf (homedir pf) rest else p
     | [] \<Rightarrow> p)"

definition new_SanctumClient :: "string \<Rightarrow> client_opts \<Rightarrow> SanctumClient" where
  "new_SanctumClient name opts =
     \<lparr>agentName = name,
      socketPath = opt_socketPath opts,
      host = opt_host opts,
      port = opt_port opts,
      keyPath = opt_keyPath opts,
      socket = None,
      sessionId = Null,
      reqId = 0,
      leases = [],
      buffer = [],
      pending = {},
      settled = (\<lambda>_. Pending),
      connecting = Pending,
      invoked = []\<rparr>"

subsection \<open>The request multiplexer\<close>

text \<open>
  The \<open>resolve\<close> closure that \<open>call\<close> stores under its id: with the response it runs
  \<open>raiseOnError\<close> and settles the promise of the call.
\<close>

definition call_resolve :: "RpcResponse \<Rightarrow> jsobj promise" where
  "call_resolve resp =
     (case raiseOnError resp of
        Some e \<Rightarrow> Rejected e
      | None \<Rightarrow> Resolved (case result resp of None \<Rightarrow> [] | Some r \<Rightarrow> r))"

text \<open>The end of the body of the loop of \<open>onData\<close>: look the id up, delete it, resolve.\<close>

definition dispatch :: "RpcResponse \<Rightarrow> SanctumClient \<Rightarrow> SanctumClient" where
  "dispatch payload st =
     (if resp_id payload \<in> pending st
      then st\<lparr>pending := pending st - {resp_id payload},
              settled := (settled st)(resp_id payload := call_resolve payload)\<rparr>
      else st)"

text \<open>
  The \<open>while\<close> loop of \<open>onData\<close>. What leaves the handler as an exception is the
  first component of the result: an exception of \<open>JSON.parse\<close>, with the buffer not
  yet advanced, or the \<open>TypeError\<close> of reading \<open>payload.id\<close> on \<open>null\<close>, with
  the buffer already past the frame.
\<close>

function onData_loop :: "platform \<Rightarrow> SanctumClient \<Rightarrow> thrown option \<times> SanctumClient" where
  "onData_loop pf st =
     (if length (buffer st) \<ge> 4 then
        (case readUInt32BE (buffer st) of
           Inl e \<Rightarrow> (Some e, st)
         | Inr len \<Rightarrow>
             (if length (buffer st) < 4 + len then (None, st)
              else (case JSON_parse pf (take len (drop 4 (buffer st))) of
                      Inl e \<Rightarrow> (Some e, st)
                    | Inr NullValue \<Rightarrow>
                        (Some (TypeError ''Cannot read properties of null''),
                         st\<lparr>buffer := drop (4 + len) (buffer st)\<rparr>)
                    | Inr NoId \<Rightarrow>
                        onData_loop pf (st\<lparr>buffer := drop (4 + len) (buffer st)\<rparr>)
                    | Inr (Response payload) \<Rightarrow>
                        onData_loop pf
                          (dispatch payload (st\<lparr>buffer := drop (4 + len) (buffer st)\<rparr>)))))
      else (None, st))"
  by pat_completeness auto
termination
  by (relation "measure (\<lambda>(pf, st). length (buffer st))") (auto simp: dispatch_def)

declare onData_loop.simps [simp del]

definition onData :: "platform \<Rightarrow> bytes \<Rightarrow> SanctumClient \<Rightarrow> thrown option \<times> SanctumClient" where
  "onData pf chunk st = onData_loop pf (st\<lparr>buffer := buffer st @ chunk\<rparr>)"

text \<open>
  \<open>call\<close> up to the point where it returns its promise: the id of the call when the
  frame was written, or what it threw. The promise it creates is new, hence pending.
\<close>

definition call :: "platform \<Rightarrow> string \<Rightarrow> jsobj \<Rightarrow> SanctumClient \<Rightarrow> (thrown + nat) \<times> SanctumClient" where
  "call pf method params st0 =
     (let st = st0\<lparr>invoked := invoked st0 @ [(method, params)]\<rparr>
      in case socket st of
           None \<Rightarrow> (Inl (internal_error ''Not connected''), st)
         | Some sock \<Rightarrow>
             (let ident = reqId st + 1;
                  st1 = st\<lparr>reqId := ident\<rparr>
              in case encodeFrame (JSON_stringify pf)
                        \<lparr>req_id = ident, req_method = method, req_params = params\<rparr> of
                   Inl e \<Rightarrow> (Inl e, st1)
                 | Inr frame \<Rightarrow>
                     (Inr ident,
                      st1\<lparr>settled := (settled st1)(ident := Pending),
                          pending := insert ident (pending st1),
                          socket := Some (sock\<lparr>written := written sock @ [frame]\<rparr>)\<rparr>)))"

text \<open>
  \<open>await this.call(method, params)\<close> with no other operation of the client running in
  between: the daemon's response, if one arrives, goes through \<open>dispatch\<close>, and the
  caller resumes with the state of its promise.
\<close>

definition await_call ::
  "platform \<Rightarrow> server \<Rightarrow> string \<Rightarrow> jsobj \<Rightarrow> SanctumClient \<Rightarrow> jsobj promise \<times> SanctumClient" where
  "await_call pf srv method params st =
     (case call pf method params st of
        (Inl e, st1) \<Rightarrow> (Rejected e, st1)
      | (Inr ident, st1) \<Rightarrow>
          (case srv \<lparr>req_id = ident, req_method = method, req_params = params\<rparr> of
             None \<Rightarrow> (Pending, st1)
           | Some resp \<Rightarrow> (let st2 = dispatch resp st1 in (settled st2 ident, st2))))"

subsection \<open>Connecting\<close>

text \<open>
  The executor of the promise of \<open>rawConnect\<close>: it creates the socket and registers the
  three listeners. \<open>this.host && this.port\<close> is true for a non-empty host and a port
  other than 0. When \<open>net.createConnection\<close> throws, the executor ends there:
  \<open>this.socket\<close> is not assigned and the promise is rejected with what was thrown.
\<close>

definition rawConnect :: "platform \<Rightarrow> SanctumClient \<Rightarrow> SanctumClient" where
  "rawConnect pf st =
     (let by_path = PathOptions (expandHome pf
                      (case socketPath st of None \<Rightarrow> DEFAULT_SOCKET | Some sp \<Rightarrow> sp));
          opts = (case host st of
                    None \<Rightarrow> by_path
                  | Some h \<Rightarrow>
                      (case port st of
                         None \<Rightarrow> by_path
                       | Some p \<Rightarrow> if h \<noteq> [] \<and> p \<noteq> 0 then TcpOptions h p else by_path))
      in case createConnection opts of
           Inl e \<Rightarrow> st\<lparr>connecting := Rejected e\<rparr>
         | Inr created \<Rightarrow>
             st\<lparr>socket := Some \<lparr>options = created,
                                  data_listeners = [OnDataListener],
                                  error_listeners = [RejectListener],
                                  connect_listeners = [ConnectListener],
                                  written = []\<rparr>,
                connecting := Pending\<rparr>)"

text \<open>A promise settles once: later calls of \<open>resolve\<close> or \<open>reject\<close> do nothing.\<close>

definition settle :: "'a promise \<Rightarrow> 'a promise \<Rightarrow> 'a promise" where
  "settle p v = (case p of Pending \<Rightarrow> v | Rejected e \<Rightarrow> p | Resolved x \<Rightarrow> p)"

text \<open>
  The events of the socket and what the registered closures do with them. A listener
  that throws ends the emission; the exception leaves \<open>emit\<close> uncaught. An
  \<open>error\<close> event with no listener is thrown by the emitter itself. No listener is
  ever registered for \<open>close\<close> or \<open>end\<close>.
\<close>

datatype event = Data bytes | Error thrown | Connect | Close | End

fun run_listener ::
  "platform \<Rightarrow> event \<Rightarrow> listener \<Rightarrow> SanctumClient \<Rightarrow> thrown option \<times> SanctumClient" where
  "run_listener pf (Data chunk) OnDataListener st = onData pf chunk st"
| "run_listener pf (Error e) RejectListener st =
     (None, st\<lparr>connecting := settle (connecting st) (Rejected e)\<rparr>)"
| "run_listener pf Connect ConnectListener st =
     (case socket st of
        None \<Rightarrow> (Some (TypeError ''Cannot read properties of null''), st)
      | Some sock \<Rightarrow>
          (None, st\<lparr>socket := Some (sock\<lparr>error_listeners :=
                                      remove1 RejectListener (error_listeners sock)\<rparr>),
                    connecting := settle (connecting st) (Resolved ())\<rparr>))"
| "run_listener pf ev l st = (None, st)"

fun run_listeners ::
  "platform \<Rightarrow> event \<Rightarrow> listener list \<Rightarrow> SanctumClient \<Rightarrow> thrown option \<times> SanctumClient" where
  "run_listeners pf ev [] st = (None, st)"
| "run_listeners pf ev (l # ls) st =
     (case run_listener pf ev l st of
        (Some e, st1) \<Rightarrow> (Some e, st1)
      | (None, st1) \<Rightarrow> run_listeners pf ev ls st1)"

definition emit :: "platform \<Rightarrow> event \<Rightarrow> SanctumClient \<Rightarrow> thrown option \<times> SanctumClient" where
  "emit pf ev st =
     (case socket st of
        None \<Rightarrow> (None, st)
      | Some sock \<Rightarrow>
          (case ev of
             Data chunk \<Rightarrow> run_listeners pf ev (data_listeners sock) st
           | Error e \<Rightarrow>
               (if error_listeners sock = [] then (Some e, st)
                else run_listeners pf ev (error_listeners sock) st)
           | Connect \<Rightarrow>
               run_listeners pf ev (connect_listeners sock)
                 (st\<lparr>socket := Some (sock\<lparr>connect_listeners := []\<rparr>)\<rparr>)
           | Close \<Rightarrow> (None, st)
           | End \<Rightarrow> (None, st)))"

subsection \<open>The handshake\<close>

fun show_nat :: "nat \<Rightarrow> string" where
  "show_nat n =
     (if n < 10 then [char_of (48 + n)] else show_nat (n div 10) @ [char_of (48 + n mod 10)])"

declare show_nat.simps [simp del]

definition loadKey :: "platform \<Rightarrow> string \<Rightarrow> string option \<Rightarrow> thrown + SignKeyPair" where
  "loadKey pf name kp =
     (let by_name = path_join pf (expandHome pf DEFAULT_KEY_DIR) (name @ ''.key'');
          p = (case kp of
                 None \<Rightarrow> by_name
               | Some k \<Rightarrow> if k \<noteq> [] then expandHome pf k else by_name)
      in case readFileSync pf p of
           Inl e \<Rightarrow> Inl e
         | Inr content \<Rightarrow>
             (case Buffer_from_hex pf (Str (trim pf content)) of
                Inl e \<Rightarrow> Inl e
              | Inr seed \<Rightarrow>
                  if length seed \<noteq> 32
                  then Inl (Vault (error_new AuthError
                         (''Key file has '' @ show_nat (length seed) @ '' bytes, expected 32'')
                         no_opts))
                  else Inr (keyPair_fromSeed pf seed)))"

definition authenticate ::
  "platform \<Rightarrow> server \<Rightarrow> string \<Rightarrow> string option \<Rightarrow> SanctumClient \<Rightarrow> unit promise \<times> SanctumClient" where
  "authenticate pf srv name kp st =
     (case loadKey pf name kp of
        Inl e \<Rightarrow> (Rejected e, st)
      | Inr keyPair \<Rightarrow>
          (case await_call pf srv ''authenticate'' [(''agent_name'', Str name)] st of
             (Pending, st1) \<Rightarrow> (Pending, st1)
           | (Rejected e, st1) \<Rightarrow> (Rejected e, st1)
           | (Resolved r1, st1) \<Rightarrow>
               (let st2 = st1\<lparr>sessionId := property r1 ''session_id''\<rparr>
                in case Buffer_from_hex pf (property r1 ''challenge'') of
                     Inl e \<Rightarrow> (Rejected e, st2)
                   | Inr challenge \<Rightarrow>
                       (let signature = sign_detached pf challenge (secretKey keyPair)
                        in case await_call pf srv ''challenge_response''
                                  [(''session_id'', sessionId st2),
                                   (''signature'', Str (toString_hex pf signature))] st2 of
                             (Pending, st3) \<Rightarrow> (Pending, st3)
                           | (Rejected e, st3) \<Rightarrow> (Rejected e, st3)
                           | (Resolved r2, st3) \<Rightarrow>
                               if falsy (property r2 ''authenticated'')
                               then (Rejected (Vault (error_new AuthError
                                       ''Authentication not confirmed'' no_opts)), st3)
                               else (Resolved (), st3)))))"

text \<open>
  \<open>connect\<close>: the target given here overrides the stored one, the transport answers
  the connection attempt, if one was made, with its event, and the handshake follows a
  connection.
\<close>

definition connect ::
  "platform \<Rightarrow> network \<Rightarrow> server \<Rightarrow> ConnectionTarget option \<Rightarrow> SanctumClient
     \<Rightarrow> unit promise \<times> SanctumClient" where
  "connect pf net srv target st =
     (let st1 = (case target of
                   None \<Rightarrow> st
                 | Some (SocketPath p) \<Rightarrow> st\<lparr>socketPath := Some p, host := None\<rparr>
                 | Some (HostPort h p) \<Rightarrow>
                     st\<lparr>host := Some h, port := Some p, socketPath := None\<rparr>);
          st2 = rawConnect pf st1;
          st3 = (case connecting st2 of
                   Rejected e \<Rightarrow> st2
                 | Resolved u \<Rightarrow> st2
                 | Pending \<Rightarrow>
                     (case socket st2 of
                        None \<Rightarrow> st2
                      | Some sock \<Rightarrow>
                          (case net (options sock) of
                             Connects \<Rightarrow> snd (emit pf Connect st2)
                           | Fails e \<Rightarrow> snd (emit pf (Error e) st2)
                           | Hangs \<Rightarrow> st2)))
      in case connecting st3 of
           Pending \<Rightarrow> (Pending, st3)
         | Rejected e \<Rightarrow> (Rejected e, st3)
         | Resolved u \<Rightarrow> authenticate pf srv (agentName st3) (keyPath st3) st3)"

subsection \<open>Credentials and leases\<close>

definition retrieve ::
  "platform \<Rightarrow> server \<Rightarrow> string \<Rightarrow> int option \<Rightarrow> SanctumClient \<Rightarrow> string promise \<times> SanctumClient" where
  "retrieve pf srv credPath ttl st =
     (let params = [(''session_id'', sessionId st), (''path'', Str credPath)]
                   @ (case ttl of None \<Rightarrow> [] | Some t \<Rightarrow> [(''ttl'', Num t)])
      in case await_call pf srv ''retrieve'' params st of
           (Pending, st1) \<Rightarrow> (Pending, st1)
         | (Rejected e, st1) \<Rightarrow> (Rejected e, st1)
         | (Resolved r, st1) \<Rightarrow>
             (let st2 = st1\<lparr>leases := leases st1 @ [property r ''lease_id'']\<rparr>
              in case Buffer_from_hex pf (property r ''value'') of
                   Inl e \<Rightarrow> (Rejected e, st2)
                 | Inr b \<Rightarrow> (Resolved (toString_utf8 pf b), st2)))"

definition list ::
  "platform \<Rightarrow> server \<Rightarrow> SanctumClient \<Rightarrow> jsvalue promise \<times> SanctumClient" where
  "list pf srv st =
     (case await_call pf srv ''list'' [(''session_id'', sessionId st)] st of
        (Pending, st1) \<Rightarrow> (Pending, st1)
      | (Rejected e, st1) \<Rightarrow> (Rejected e, st1)
      | (Resolved r, st1) \<Rightarrow>
          (Resolved (case property r ''credentials'' of
                       Undefined \<Rightarrow> Arr []
                     | Null \<Rightarrow> Arr []
                     | v \<Rightarrow> v), st1))"

definition releaseLease ::
  "platform \<Rightarrow> server \<Rightarrow> jsvalue \<Rightarrow> SanctumClient \<Rightarrow> unit promise \<times> SanctumClient" where
  "releaseLease pf srv leaseId st =
     (case await_call pf srv ''release_lease'' [(''lease_id'', leaseId)] st of
        (Pending, st1) \<Rightarrow> (Pending, st1)
      | (Rejected e, st1) \<Rightarrow> (Rejected e, st1)
      | (Resolved r, st1) \<Rightarrow>
          (Resolved (), st1\<lparr>leases := filter (\<lambda>i. i \<noteq> leaseId) (leases st1)\<rparr>))"

definition use ::
  "platform \<Rightarrow> server \<Rightarrow> string \<Rightarrow> string \<Rightarrow> jsobj option \<Rightarrow> SanctumClient
     \<Rightarrow> jsobj promise \<times> SanctumClient" where
  "use pf srv credPath operation params st =
     (let rpcParams = [(''session_id'', sessionId st), (''path'', Str credPath),
                       (''operation'', Str operation)]
                      @ (case params of None \<Rightarrow> [] | Some ps \<Rightarrow> [(''params'', Obj ps)])
      in await_call pf srv ''use'' rpcParams st)"



section \<open>A concrete environment\<close>

text \<open>
  One platform, one transport and one daemon to run the client against. The text of a
  value is what \<open>JSON.stringify\<close> prints for it: no white space, properties in
  insertion order, \<open>undefined\<close> properties left out, \<open>undefined\<close> array elements
  printed as \<open>null\<close>.
\<close>

definition hex_digit :: "nat \<Rightarrow> char" where
  "hex_digit n = (if n < 10 then char_of (48 + n) else char_of (87 + n))"

definition json_escape :: "char \<Rightarrow> string" where
  "json_escape c =
     (if c = CHR 0x22 then [CHR 0x5C, CHR 0x22]
      else if c = CHR 0x5C then [CHR 0x5C, CHR 0x5C]
      else if c = CHR 0x08 then [CHR 0x5C, CHR ''b'']
      else if c = CHR 0x09 then [CHR 0x5C, CHR ''t'']
      else if c = CHR 0x0A then [CHR 0x5C, CHR ''n'']
      else if c = CHR 0x0C then [CHR 0x5C, CHR ''f'']
      else if c = CHR 0x0D then [CHR 0x5C, CHR ''r'']
      else if (of_char c :: nat) < 32
        then [CHR 0x5C, CHR ''u'', CHR ''0'', CHR ''0'',
              hex_digit (of_char c div 16), hex_digit (of_char c mod 16)]
      else [c])"

definition json_quote :: "string \<Rightarrow> string" where
  "json_quote s = CHR 0x22 # concat (map json_escape s) @ [CHR 0x22]"

definition show_int :: "int \<Rightarrow> string" where
  "show_int i = (if i < 0 then CHR ''-'' # show_nat (nat (- i)) else show_nat (nat i))"

fun commas :: "string list \<Rightarrow> string" where
  "commas [] = []"
| "commas [x] = x"
| "commas (x # y # ys) = x @ CHR '','' # commas (y # ys)"

fun json_text :: "jsvalue \<Rightarrow> string"
  and json_elements :: "jsvalue list \<Rightarrow> string list"
  and json_members :: "(string \<times> jsvalue) list \<Rightarrow> string list" where
  "json_text Undefined = ''null''"
| "json_text Null = ''null''"
| "json_text (Bool b) = (if b then ''true'' else ''false'')"
| "json_text (Num n) = show_int n"
| "json_text (Str s) = json_quote s"
| "json_text (Arr vs) = CHR ''['' # commas (json_elements vs) @ '']''"
| "json_text (Obj kvs) = CHR ''{'' # commas (json_members kvs) @ ''}''"
| "json_elements [] = []"
| "json_elements (v # vs) = json_text v # json_elements vs"
| "json_members [] = []"
| "json_members ((k, v) # kvs) =
     (if v = Undefined then json_members kvs
      else (json_quote k @ CHR '':'' # json_text v) # json_members kvs)"

definition object_text :: "jsobj \<Rightarrow> bytes" where
  "object_text obj = json_text (Obj obj)"

definition request_text :: "RpcRequest \<Rightarrow> bytes" where
  "request_text req =
     json_text (Obj [(''id'', Num (int (req_id req))),
                     (''method'', Str (req_method req)),
                     (''params'', Obj (req_params req))])"

definition optional :: "string \<Rightarrow> ('a \<Rightarrow> jsvalue) \<Rightarrow> 'a option \<Rightarrow> jsobj" where
  "optional k f x = (case x of None \<Rightarrow> [] | Some v \<Rightarrow> [(k, f v)])"

definition error_value :: "wire_error \<Rightarrow> jsvalue" where
  "error_value e =
     (case e of
        ErrorString s \<Rightarrow> Str s
      | ErrorObject se \<Rightarrow>
          Obj (optional ''code'' Str (s_code se) @ optional ''message'' Str (s_message se)
               @ optional ''detail'' Str (s_detail se)
               @ optional ''suggestion'' Str (s_suggestion se)
               @ optional ''docs_url'' Str (s_docs_url se)
               @ optional ''context'' Obj (s_context se)))"

definition response_text :: "RpcResponse \<Rightarrow> bytes" where
  "response_text resp =
     json_text (Obj ([(''id'', Num (int (resp_id resp)))]
                     @ optional ''result'' Obj (result resp)
                     @ optional ''error'' error_value (error resp)))"

text \<open>
  \<open>JSON.parse\<close> on the texts of the listed values, and a \<open>SyntaxError\<close> on any other
  input.
\<close>

fun parse_among :: "('a \<Rightarrow> bytes) \<Rightarrow> 'a list \<Rightarrow> bytes \<Rightarrow> thrown + 'a" where
  "parse_among text [] bs = Inl (SyntaxError ''Unexpected token'')"
| "parse_among text (v # vs) bs = (if bs = text v then Inr v else parse_among text vs bs)"

text \<open>
  Hexadecimal as \<open>Buffer\<close> reads and prints it: decoding stops at the first pair that
  is not two hexadecimal digits.
\<close>

definition hex_value :: "char \<Rightarrow> nat option" where
  "hex_value c =
     (let n = (of_char c :: nat)
      in if 48 \<le> n \<and> n \<le> 57 then Some (n - 48)
         else if 97 \<le> n \<and> n \<le> 102 then Some (n - 87)
         else if 65 \<le> n \<and> n \<le> 70 then Some (n - 55)
         else None)"

fun hex_decode :: "string \<Rightarrow> bytes" where
  "hex_decode (a # b # rest) =
     (case hex_value a of
        None \<Rightarrow> []
      | Some x \<Rightarrow> (case hex_value b of
                     None \<Rightarrow> []
                   | Some y \<Rightarrow> char_of (16 * x + y) # hex_decode rest))"
| "hex_decode _ = []"

definition hex_encode :: "bytes \<Rightarrow> string" where
  "hex_encode bs =
     concat (map (\<lambda>b. [hex_digit (of_char b div 16), hex_digit (of_char b mod 16)]) bs)"

definition is_space :: "char \<Rightarrow> bool" where
  "is_space c =
     (c = CHR '' '' \<or> c = CHR 0x0A \<or> c = CHR 0x0D \<or> c = CHR 0x09 \<or> c = CHR 0x0B
      \<or> c = CHR 0x0C)"

text \<open>
  The platform: files are given by their path, the responses that \<open>JSON.parse\<close> knows
  by a list, next to the text \<open>null\<close>. Signing is stood in for by a function of the
  right shape only. The other functions are those of Node on the inputs used below, not
  beyond: \<open>path.join\<close> also normalises, \<open>trim\<close> also strips the white space
  outside ASCII, \<open>toString\<close> replaces what is not UTF-8, and \<open>Buffer.from\<close>
  accepts some values that are not strings.
\<close>

definition node :: "(string \<times> string) list \<Rightarrow> RpcResponse list \<Rightarrow> platform" where
  "node files known =
     \<lparr>JSON_stringify = request_text,
      JSON_parse = (\<lambda>bs. if bs = ''null'' then Inr NullValue
                         else case parse_among response_text known bs of
                                Inl e \<Rightarrow> Inl e
                              | Inr resp \<Rightarrow> Inr (Response resp)),
      homedir = ''/home/agent'',
      path_join = (\<lambda>a b. case b of
                      [] \<Rightarrow> a
                    | c # cs \<Rightarrow> if c = CHR ''/'' then a @ b else a @ CHR ''/'' # b),
      readFileSync = (\<lambda>p. case map_of files p of
                         None \<Rightarrow> Inl (SystemError ''ENOENT'')
                       | Some content \<Rightarrow> Inr content),
      trim = (\<lambda>s. rev (dropWhile is_space (rev (dropWhile is_space s)))),
      Buffer_from_hex = (\<lambda>v. case v of
                            Str s \<Rightarrow> Inr (hex_decode s)
                          | _ \<Rightarrow> Inl (TypeError ''ERR_INVALID_ARG_TYPE'')),
      toString_hex = hex_encode,
      toString_utf8 = (\<lambda>b. b),
      keyPair_fromSeed = (\<lambda>seed. \<lparr>publicKey = seed, secretKey = seed @ seed\<rparr>),
      sign_detached = (\<lambda>msg key. key)\<rparr>"

text \<open>Objects to frame: two small ones, and one whose text is longer than 4 MiB.\<close>

definition small_a :: jsobj where
  "small_a = [(''id'', Num 1)]"

definition small_b :: jsobj where
  "small_b = [(''id'', Num 2)]"

definition big_object :: jsobj where
  "big_object = [(''k'', Str (replicate 4194304 CHR ''a''))]"

text \<open>
  A key file of 32 bytes for the agent \<open>my-agent\<close>, a transport that accepts every
  connection, and a daemon. The daemon confirms the handshake or not, and releases a
  lease, reports it expired, or does not answer a release at all.
\<close>

definition key_files :: "(string \<times> string) list" where
  "key_files =
     [(''/home/agent/.sanctum/keys/my-agent.key'',
       ''000102030405060708090a0b0c0d0e0f101112131415161718191a1b1c1d1e1f'' @ [CHR 0x0A])]"

definition reachable :: network where
  "reachable opts = Connects"

definition answer :: "nat \<Rightarrow> jsobj \<Rightarrow> RpcResponse" where
  "answer i r = \<lparr>resp_id = i, result = Some r, error = None\<rparr>"

definition refuse :: "nat \<Rightarrow> string \<Rightarrow> string \<Rightarrow> RpcResponse" where
  "refuse i c m =
     \<lparr>resp_id = i, result = None,
      error = Some (ErrorObject \<lparr>s_code = Some c, s_message = Some m, s_detail = None,
                s_suggestion = None, s_docs_url = None, s_context = None\<rparr>)\<rparr>"

datatype release_policy = Releases | ReportsExpired | StaysSilent

definition vault :: "bool \<Rightarrow> release_policy \<Rightarrow> server" where
  "vault confirm policy req =
     (if req_method req = ''authenticate''
        then Some (answer (req_id req)
               [(''session_id'', Str ''sess-1''), (''challenge'', Str ''c0ffee'')])
      else if req_method req = ''challenge_response''
        then Some (answer (req_id req) [(''authenticated'', Bool confirm)])
      else if req_method req = ''retrieve''
        then Some (answer (req_id req)
               [(''value'', Str ''68656c6c6f''), (''lease_id'', Str ''lease-1'')])
      else if req_method req = ''list''
        then Some (answer (req_id req)
               [(''credentials'', Arr [Obj [(''path'', Str ''a'')], Obj [(''path'', Str ''b'')]])])
      else if req_method req = ''release_lease''
        then (case policy of
                Releases \<Rightarrow> Some (answer (req_id req) [])
              | ReportsExpired \<Rightarrow> Some (refuse (req_id req) ''LEASE_EXPIRED'' ''lease expired'')
              | StaysSilent \<Rightarrow> None)
      else Some (answer (req_id req) []))"

text \<open>
  A client constructed with both a socket path and a host and port, and a client as it
  is after a handshake, holding the given leases.
\<close>

definition agent :: SanctumClient where
  "agent = new_SanctumClient ''my-agent''
     \<lparr>opt_socketPath = Some ''/tmp/vault.sock'', opt_host = Some ''127.0.0.1'',
      opt_port = Some 8200, opt_keyPath = None\<rparr>"

definition session :: "jsvalue list \<Rightarrow> SanctumClient" where
  "session ls =
     (new_SanctumClient ''my-agent''
        \<lparr>opt_socketPath = None, opt_host = None, opt_port = None, opt_keyPath = None\<rparr>)
     \<lparr>socket := Some \<lparr>options = PathOptions ''/home/agent/.sanctum/vault.sock'',
                      data_listeners = [OnDataListener],
                      error_listeners = [],
                      connect_listeners = [],
                      written = []\<rparr>,
      sessionId := Str ''sess-1'',
      reqId := 2,
      leases := ls,
      connecting := Resolved ()\<rparr>"

text \<open>
  The agent once the transport has connected, before the handshake; after a whole
  \<open>connect\<close> against a daemon that confirms; and then with one call in flight.
\<close>

definition connected :: SanctumClient where
  "connected = snd (emit (node key_files []) Connect (rawConnect (node key_files []) agent))"

definition ready :: SanctumClient where
  "ready = snd (connect (node key_files []) reachable (vault True Releases) None agent)"

definition waiting :: SanctumClient where
  "waiting = snd (call (node key_files []) ''list'' [(''session_id'', sessionId ready)] ready)"

text \<open>
  A response that carries a secret of 2 MiB in hexadecimal, which makes a frame of more
  than 4 MiB, and a client that has asked for it.
\<close>

definition big_response :: RpcResponse where
  "big_response =
     answer 3 [(''value'', Str (replicate 4194304 CHR ''6'')), (''lease_id'', Str ''lease-1'')]"

definition asking :: SanctumClient where
  "asking = snd (call (node key_files [big_response]) ''retrieve''
                   [(''session_id'', Str ''sess-1''), (''path'', Str ''certs/bundle'')]
                   (session []))"

text \<open>
  A daemon that issues the challenge and then answers nothing more, and the client of
  two leases after the daemon has refused to release the second.
\<close>

definition challenger :: server where
  "challenger req =
     (if req_method req = ''authenticate'' then vault True Releases req else None)"



section \<open>Properties of the frame codec\<close>

lemma split32:
  fixes n :: nat
  assumes n: "n < 4294967296"
  shows "n div 16777216 * 16777216 + n div 65536 mod 256 * 65536
           + n div 256 mod 256 * 256 + n mod 256 = n"
    and "n div 16777216 < 256"
proof -
  define q1 q2 q3 where "q1 = n div 256" and "q2 = q1 div 256" and "q3 = q2 div 256"
  have e2: "n div 65536 = q2" and e3: "n div 16777216 = q3"
    by (simp_all add: q1_def q2_def q3_def div_mult2_eq[symmetric])
  have a: "256 * q1 + n mod 256 = n" unfolding q1_def by (rule mult_div_mod_eq)
  have b: "256 * q2 + q1 mod 256 = q1" unfolding q2_def by (rule mult_div_mod_eq)
  have c: "256 * q3 + q2 mod 256 = q2" unfolding q3_def by (rule mult_div_mod_eq)
  have "q3 * 16777216 + q2 mod 256 * 65536 + q1 mod 256 * 256 + n mod 256 = n"
    using a b c by linarith
  then show "n div 16777216 * 16777216 + n div 65536 mod 256 * 65536
       + n div 256 mod 256 * 256 + n mod 256 = n"
    by (simp add: e2 e3 q1_def)
  show "n div 16777216 < 256" using n by simp
qed

lemma length_header: "writeUInt32BE n = Inr h \<Longrightarrow> length h = 4"
  by (auto simp: writeUInt32BE_def split: if_splits)

text \<open>The header that \<open>writeUInt32BE\<close> writes is read back by \<open>readUInt32BE\<close>.\<close>

lemma read_write:
  assumes "writeUInt32BE n = Inr h"
  shows "readUInt32BE (h @ rest) = Inr n"
proof -
  from assms have n: "n < 4294967296"
    and h: "h = [char_of (n div 16777216 mod 256), char_of (n div 65536 mod 256),
                char_of (n div 256 mod 256), char_of (n mod 256)]"
    by (auto simp: writeUInt32BE_def split: if_splits)
  show ?thesis using split32 [OF n] by (simp add: h)
qed

text \<open>Length-prefix correctness: the first four bytes of a frame are the payload's length.\<close>

lemma encodeFrame_prefix:
  assumes "encodeFrame stringify obj = Inr frame"
  shows "readUInt32BE frame = Inr (length (stringify obj))"
    and "length frame = 4 + length (stringify obj)"
proof -
  from assms obtain h where h: "writeUInt32BE (length (stringify obj)) = Inr h"
    and f: "frame = h @ stringify obj"
    by (auto simp: encodeFrame_def Let_def split: sum.splits)
  show "readUInt32BE frame = Inr (length (stringify obj))"
    unfolding f by (rule read_write [OF h])
  show "length frame = 4 + length (stringify obj)"
    by (simp add: f length_header [OF h])
qed

lemma decode_append:
  assumes h: "writeUInt32BE (length p) = Inr h" and small: "length p \<le> MAX_MESSAGE_SIZE"
  shows "decodeFrame parse (h @ p @ rest)
           = (case parse p of Inl e \<Rightarrow> Inl e | Inr obj \<Rightarrow> Inr (obj, rest))"
proof -
  have rd: "readUInt32BE (h @ p @ rest) = Inr (length p)"
    by (rule read_write [OF h])
  have lh: "length h = 4" by (rule length_header [OF h])
  have bd: "take (length p) (drop 4 (h @ p @ rest)) = p"
    and tl: "drop (4 + length p) (h @ p @ rest) = rest"
    by (simp_all add: lh)
  show ?thesis
    unfolding decodeFrame_def using small by (simp add: rd lh bd tl split: sum.split)
qed

lemma decode_too_large:
  assumes h: "writeUInt32BE (length p) = Inr h" and large: "length p > MAX_MESSAGE_SIZE"
  shows "decodeFrame parse (h @ p @ rest) = Inl (internal_error ''Response too large'')"
proof -
  have rd: "readUInt32BE (h @ p @ rest) = Inr (length p)"
    by (rule read_write [OF h])
  have lh: "length h = 4" by (rule length_header [OF h])
  show ?thesis
    unfolding decodeFrame_def using large by (simp add: rd lh)
qed

text \<open>Incomplete input: neither case returns a value, and the buffer is the caller's.\<close>

lemma decode_incomplete_header:
  "length data < 4 \<Longrightarrow> decodeFrame parse data = Inl (internal_error ''Incomplete frame header'')"
  by (simp add: decodeFrame_def)

lemma decode_incomplete_body:
  assumes "readUInt32BE data = Inr len" and "len \<le> MAX_MESSAGE_SIZE"
    and "4 \<le> length data" and "length data < 4 + len"
  shows "decodeFrame parse data = Inl (internal_error ''Incomplete frame body'')"
  using assms by (simp add: decodeFrame_def)

lemma encode_decode_one:
  assumes "parse (stringify r) = Inr r" and "length (stringify r) \<le> MAX_MESSAGE_SIZE"
  shows "\<exists>frame. encodeFrame stringify r = Inr frame
           \<and> (\<forall>rest. decodeFrame parse (frame @ rest) = Inr (r, rest))"
proof -
  let ?p = "stringify r"
  have "length ?p \<le> 4294967295" using assms(2) by (simp add: MAX_MESSAGE_SIZE_def)
  then obtain h where h: "writeUInt32BE (length ?p) = Inr h"
    by (simp add: writeUInt32BE_def)
  have enc: "encodeFrame stringify r = Inr (h @ ?p)"
    by (simp add: encodeFrame_def h)
  have "decodeFrame parse ((h @ ?p) @ rest) = Inr (r, rest)" for rest
    using decode_append [OF h assms(2), of parse rest] assms(1) by simp
  with enc show ?thesis by blast
qed

text \<open>
  Claim C7, as amended. For objects \<open>a\<close> and \<open>b\<close> that \<open>JSON.parse\<close> recovers from
  their \<open>JSON.stringify\<close> text, and whose text is at most \<open>MAX_MESSAGE_SIZE\<close> bytes
  long: \<open>encodeFrame\<close> succeeds; decoding the frame of \<open>a\<close> followed by any bytes
  \<open>rest\<close> returns \<open>a\<close> and \<open>rest\<close>; decoding the frame alone returns \<open>a\<close> and an
  empty remainder; and decoding the two frames concatenated returns \<open>a\<close> and the frame
  of \<open>b\<close>, which decodes to \<open>b\<close> with nothing left over.
\<close>

theorem frame_round_trip:
  assumes "parse (stringify a) = Inr a" and "length (stringify a) \<le> MAX_MESSAGE_SIZE"
    and "parse (stringify b) = Inr b" and "length (stringify b) \<le> MAX_MESSAGE_SIZE"
  shows "\<exists>fa fb. encodeFrame stringify a = Inr fa \<and> encodeFrame stringify b = Inr fb
           \<and> (\<forall>rest. decodeFrame parse (fa @ rest) = Inr (a, rest))
           \<and> decodeFrame parse fa = Inr (a, [])
           \<and> decodeFrame parse (fa @ fb) = Inr (a, fb)
           \<and> decodeFrame parse fb = Inr (b, [])"
proof -
  obtain fa where fa: "encodeFrame stringify a = Inr fa"
      "\<And>rest. decodeFrame parse (fa @ rest) = Inr (a, rest)"
    using encode_decode_one [of parse stringify a, OF assms(1,2)] by blast
  obtain fb where fb: "encodeFrame stringify b = Inr fb"
      "\<And>rest. decodeFrame parse (fb @ rest) = Inr (b, rest)"
    using encode_decode_one [of parse stringify b, OF assms(3,4)] by blast
  have "decodeFrame parse fa = Inr (a, [])" using fa(2) [of "[]"] by simp
  moreover have "decodeFrame parse fb = Inr (b, [])" using fb(2) [of "[]"] by simp
  ultimately show ?thesis using fa fb by blast
qed

lemma show_nat_digit: "n < 10 \<Longrightarrow> show_nat n = [char_of (48 + n)]"
  by (subst show_nat.simps) simp

lemma text_small_a:
  "object_text small_a
     = [CHR ''{'', CHR 0x22, CHR ''i'', CHR ''d'', CHR 0x22, CHR '':'', CHR ''1'', CHR ''}'']"
  by (simp add: object_text_def small_a_def json_quote_def json_escape_def show_int_def
        show_nat_digit char_of_eq_iff)

lemma text_small_b:
  "object_text small_b
     = [CHR ''{'', CHR 0x22, CHR ''i'', CHR ''d'', CHR 0x22, CHR '':'', CHR ''2'', CHR ''}'']"
  by (simp add: object_text_def small_b_def json_quote_def json_escape_def show_int_def
        show_nat_digit char_of_eq_iff)

text \<open>
  The round trip at the objects \<open>{id: 1}\<close> and \<open>{id: 2}\<close> of the test suite, both
  within the size limit.
\<close>

theorem frame_round_trip_witness:
  "parse_among object_text [small_a, small_b] (object_text small_a) = Inr small_a
   \<and> length (object_text small_a) \<le> MAX_MESSAGE_SIZE
   \<and> parse_among object_text [small_a, small_b] (object_text small_b) = Inr small_b
   \<and> length (object_text small_b) \<le> MAX_MESSAGE_SIZE
   \<and> (\<exists>fa fb. encodeFrame object_text small_a = Inr fa
         \<and> encodeFrame object_text small_b = Inr fb
         \<and> (\<forall>rest. decodeFrame (parse_among object_text [small_a, small_b]) (fa @ rest)
                    = Inr (small_a, rest))
         \<and> decodeFrame (parse_among object_text [small_a, small_b]) fa = Inr (small_a, [])
         \<and> decodeFrame (parse_among object_text [small_a, small_b]) (fa @ fb)
              = Inr (small_a, fb)
         \<and> decodeFrame (parse_among object_text [small_a, small_b]) fb = Inr (small_b, []))"
proof -
  have 1: "parse_among object_text [small_a, small_b] (object_text small_a) = Inr small_a"
    by simp
  have 2: "length (object_text small_a) \<le> MAX_MESSAGE_SIZE"
    by (simp add: text_small_a MAX_MESSAGE_SIZE_def)
  have 3: "parse_among object_text [small_a, small_b] (object_text small_b) = Inr small_b"
    by (simp add: text_small_a text_small_b)
  have 4: "length (object_text small_b) \<le> MAX_MESSAGE_SIZE"
    by (simp add: text_small_b MAX_MESSAGE_SIZE_def)
  show ?thesis using frame_round_trip [OF 1 2 3 4] 1 2 3 4 by blast
qed

lemma concat_escape_replicate:
  "json_escape c = [c] \<Longrightarrow> concat (map json_escape (replicate n c)) = replicate n c"
  by (induction n) simp_all

lemma length_big_object: "length (object_text big_object) = 4194312"
  by (simp add: object_text_def big_object_def json_quote_def concat_escape_replicate
        json_escape_def)

text \<open>
  Claim C7 as stated fails on an object that is JSON-serializable but whose text is
  longer than 4 MiB: \<open>{k: "aa...a"}\<close> with 4194304 letters has a payload of 4194312
  bytes, \<open>encodeFrame\<close> frames it under the header \<open>00 40 00 08\<close>, and \<open>decodeFrame\<close>
  refuses the frame.
\<close>

theorem frame_round_trip_counterexample:
  "parse_among object_text [big_object] (object_text big_object) = Inr big_object
   \<and> encodeFrame object_text big_object
       = Inr ([CHR 0x00, CHR 0x40, CHR 0x00, CHR 0x08] @ object_text big_object)
   \<and> decodeFrame (parse_among object_text [big_object])
        ([CHR 0x00, CHR 0x40, CHR 0x00, CHR 0x08] @ object_text big_object)
       = Inl (internal_error ''Response too large'')"
proof -
  have h: "writeUInt32BE (length (object_text big_object))
             = Inr [CHR 0x00, CHR 0x40, CHR 0x00, CHR 0x08]"
    by (simp add: length_big_object writeUInt32BE_def char_of_eq_iff)
  have "decodeFrame (parse_among object_text [big_object])
          ([CHR 0x00, CHR 0x40, CHR 0x00, CHR 0x08] @ object_text big_object @ [])
        = Inl (internal_error ''Response too large'')"
    by (rule decode_too_large [OF h]) (simp add: length_big_object MAX_MESSAGE_SIZE_def)
  then show ?thesis by (simp add: encodeFrame_def h)
qed

section \<open>Properties of the error mapper\<close>

lemma raiseOnError_absent: "error resp = None \<Longrightarrow> raiseOnError resp = None"
  by (simp add: raiseOnError_def)

lemma raiseOnError_string:
  "error resp = Some (ErrorString s) \<Longrightarrow>
   raiseOnError resp = Some (Vault \<lparr>cls = VaultError, message = s, code = ''UNKNOWN'',
     detail = None, suggestion = None, docsUrl = None, err_context = []\<rparr>)"
  by (simp add: raiseOnError_def VaultError_new_def no_opts_def)

text \<open>
  A structured error whose code, or \<open>INTERNAL_ERROR\<close> in its absence, is not the name
  of a property of \<open>Object.prototype\<close>: the class is the table's entry, or
  \<open>VaultError\<close>, and the code and the guidance fields are those of the payload.
\<close>

lemma raiseOnError_structured:
  assumes "error resp = Some (ErrorObject se)"
    and "k = (case s_code se of None \<Rightarrow> ''INTERNAL_ERROR'' | Some c \<Rightarrow> c)"
    and "map_of Object_prototype k = None"
  shows "raiseOnError resp = Some (Vault
     \<lparr>cls = (case map_of CODE_TO_ERROR k of None \<Rightarrow> VaultError | Some c \<Rightarrow> c),
      message = (case s_message se of None \<Rightarrow> ''Unknown error'' | Some m \<Rightarrow> m),
      code = k,
      detail = s_detail se,
      suggestion = s_suggestion se,
      docsUrl = s_docs_url se,
      err_context = (case s_context se of None \<Rightarrow> [] | Some c \<Rightarrow> c)\<rparr>)"
  using assms
  by (auto simp: raiseOnError_def CODE_TO_ERROR_get_def new_Cls_def error_new_def
        VaultError_new_def Let_def split: option.splits)

lemma raiseOnError_access_denied:
  "raiseOnError \<lparr>resp_id = 1, result = None,
      error = Some (ErrorObject \<lparr>s_code = Some ''ACCESS_DENIED'',
        s_message = Some ''not allowed'', s_detail = Some ''policy forbids'',
        s_suggestion = None, s_docs_url = None, s_context = None\<rparr>)\<rparr>
   = Some (Vault \<lparr>cls = AccessDenied, message = ''not allowed'', code = ''ACCESS_DENIED'',
        detail = Some ''policy forbids'', suggestion = None, docsUrl = None,
        err_context = []\<rparr>)"
  by (simp add: raiseOnError_def CODE_TO_ERROR_get_def CODE_TO_ERROR_def Object_prototype_def
        new_Cls_def error_new_def VaultError_new_def)

text \<open>
  Claim C6 at the structured error \<open>{code: "constructor", message: "not allowed",
  detail: "policy forbids"}\<close>. The code is not one of the seven of the table, so the
  claim expects a \<open>VaultError\<close> with the message and the detail. \<open>CODE_TO_ERROR[code]\<close>
  finds the inherited \<open>Object\<close> function instead, the \<open>??\<close> fallback does not
  apply, and what is thrown is the \<open>String\<close> object of the message: no typed error,
  no code, no detail.
\<close>

theorem raiseOnError_constructor_code:
  "raiseOnError \<lparr>resp_id = 1, result = None,
      error = Some (ErrorObject \<lparr>s_code = Some ''constructor'',
        s_message = Some ''not allowed'', s_detail = Some ''policy forbids'',
        s_suggestion = None, s_docs_url = None, s_context = None\<rparr>)\<rparr>
   = Some (StringObject ''not allowed'')"
  by (simp add: raiseOnError_def CODE_TO_ERROR_get_def CODE_TO_ERROR_def Object_prototype_def
        new_Cls_def)

text \<open>
  Claim C10 at the structured error \<open>{code: "toString", message: "quota exceeded"}\<close>.
  The code is not in the table, so the claim expects a \<open>VaultError\<close> whose code is
  \<open>toString\<close>. The lookup finds the inherited method, which is not a constructor, and
  \<open>new Cls(...)\<close> throws a \<open>TypeError\<close>: the server's code is lost.
\<close>

theorem raiseOnError_toString_code:
  "raiseOnError \<lparr>resp_id = 1, result = None,
      error = Some (ErrorObject \<lparr>s_code = Some ''toString'',
        s_message = Some ''quota exceeded'', s_detail = None,
        s_suggestion = None, s_docs_url = None, s_context = None\<rparr>)\<rparr>
   = Some (TypeError ''Cls is not a constructor'')"
  by (simp add: raiseOnError_def CODE_TO_ERROR_get_def CODE_TO_ERROR_def Object_prototype_def
        new_Cls_def)

section \<open>Properties of the request multiplexer\<close>

lemmas text_defs = request_text_def json_quote_def json_escape_def show_int_def show_nat_digit
  char_of_eq_iff encodeFrame_def writeUInt32BE_def

lemmas call_defs = await_call_def call_def dispatch_def call_resolve_def raiseOnError_def
  Let_def property_def


lemma dispatch_fields [simp]:
  "leases (dispatch p st) = leases st"
  "sessionId (dispatch p st) = sessionId st"
  "socket (dispatch p st) = socket st"
  "invoked (dispatch p st) = invoked st"
  "buffer (dispatch p st) = buffer st"
  "reqId (dispatch p st) = reqId st"
  "connecting (dispatch p st) = connecting st"
  by (simp_all add: dispatch_def)

lemma call_fields:
  "leases (snd (call pf m ps st)) = leases st"
  "sessionId (snd (call pf m ps st)) = sessionId st"
  "invoked (snd (call pf m ps st)) = invoked st @ [(m, ps)]"
  "(socket (snd (call pf m ps st)) = None) = (socket st = None)"
  "connecting (snd (call pf m ps st)) = connecting st"
  "buffer (snd (call pf m ps st)) = buffer st"
  by (simp_all add: call_def Let_def split: option.split sum.split)

lemma await_call_fields:
  "leases (snd (await_call pf srv m ps st)) = leases st"
  "sessionId (snd (await_call pf srv m ps st)) = sessionId st"
  "invoked (snd (await_call pf srv m ps st)) = invoked st @ [(m, ps)]"
  "(socket (snd (await_call pf srv m ps st)) = None) = (socket st = None)"
  "connecting (snd (await_call pf srv m ps st)) = connecting st"
  using call_fields [of pf m ps st]
  by (auto simp: await_call_def Let_def split: prod.split sum.split option.split)

text \<open>
  A call that was written is registered under the next id, which is larger than every
  id issued before, and its promise is pending.
\<close>

lemma call_registers:
  "call pf m ps st = (Inr i, st1) \<Longrightarrow>
     i \<in> pending st1 \<and> i = reqId st + 1 \<and> reqId st1 = i \<and> settled st1 i = Pending"
  by (auto simp: call_def Let_def split: option.splits sum.splits)


text \<open>A call that resolved has a response of the daemon, with its id and no error, behind it.\<close>

lemma await_call_resolved:
  assumes "fst (await_call pf srv m ps st) = Resolved r"
  shows "\<exists>resp. srv \<lparr>req_id = reqId st + 1, req_method = m, req_params = ps\<rparr> = Some resp
           \<and> resp_id resp = reqId st + 1 \<and> raiseOnError resp = None
           \<and> r = (case result resp of None \<Rightarrow> [] | Some x \<Rightarrow> x)"
proof (cases "call pf m ps st")
  case (Pair out st1)
  show ?thesis
  proof (cases out)
    case (Inl e)
    with Pair assms show ?thesis by (simp add: await_call_def)
  next
    case (Inr i)
    with Pair have i: "i \<in> pending st1" "i = reqId st + 1" "settled st1 i = Pending"
      using call_registers by blast+
    let ?req = "\<lparr>req_id = i, req_method = m, req_params = ps\<rparr>"
    from assms Pair Inr obtain resp where r: "srv ?req = Some resp"
      by (cases "srv ?req") (auto simp: await_call_def)
    have ident: "resp_id resp = i"
    proof (rule ccontr)
      assume "resp_id resp \<noteq> i"
      then have "settled (dispatch resp st1) i = Pending"
        using i by (simp add: dispatch_def)
      with assms Pair Inr r show False by (simp add: await_call_def)
    qed
    have "call_resolve resp = Resolved r"
      using assms Pair Inr r ident i by (simp add: await_call_def dispatch_def)
    then have "raiseOnError resp = None
        \<and> r = (case result resp of None \<Rightarrow> [] | Some x \<Rightarrow> x)"
      by (auto simp: call_resolve_def split: option.splits)
    with r ident i show ?thesis by auto
  qed
qed

text \<open>
  The promise of a call changes through \<open>dispatch\<close> only, that is on a \<open>data\<close> event:
  no other event of the socket settles, or rejects, any call.
\<close>

lemma run_listener_settled:
  assumes "\<And>c. ev \<noteq> Data c"
  shows "settled (snd (run_listener pf ev l st)) = settled st"
  using assms
  by (cases "(pf, ev, l, st)" rule: run_listener.cases) (auto split: option.split)

lemma run_listeners_settled:
  assumes "\<And>c. ev \<noteq> Data c"
  shows "settled (snd (run_listeners pf ev ls st)) = settled st"
proof (induction ls arbitrary: st)
  case Nil
  then show ?case by simp
next
  case (Cons l ls)
  then show ?case using run_listener_settled [OF assms, of pf l st]
    by (cases "run_listener pf ev l st") (auto split: option.split)
qed

lemma emit_settled:
  assumes "\<And>c. ev \<noteq> Data c"
  shows "settled (snd (emit pf ev st)) = settled st"
  using assms by (auto simp: emit_def run_listeners_settled split: option.split event.split)

lemma emit_close: "emit pf Close st = (None, st)" "emit pf End st = (None, st)"
  by (simp_all add: emit_def split: option.split)

text \<open>
  Claim C1 on a run of the code: the agent connects and authenticates, issues a call,
  which gets the id 3 and a pending promise, and the connection then closes or
  errors before any response. The claim says the caller's wait fails with a
  connection error. On \<open>close\<close> nothing runs, since no listener is registered for it,
  and the promise stays pending. On \<open>error\<close> the only listener ever registered, the
  \<open>reject\<close> of the connection promise, was removed when the connection was
  established, so the emitter throws the error uncaught; the promise stays pending
  as well.
\<close>

theorem call_left_pending:
  "fst (connect (node key_files []) reachable (vault True Releases) None agent) = Resolved ()
   \<and> fst (call (node key_files []) ''list'' [(''session_id'', sessionId ready)] ready) = Inr 3
   \<and> settled waiting 3 = Pending
   \<and> fst (emit (node key_files []) Close waiting) = None
   \<and> settled (snd (emit (node key_files []) Close waiting)) 3 = Pending
   \<and> fst (emit (node key_files []) (Error (SystemError ''ECONNRESET'')) waiting)
       = Some (SystemError ''ECONNRESET'')
   \<and> settled (snd (emit (node key_files []) (Error (SystemError ''ECONNRESET'')) waiting)) 3
       = Pending"
  by (simp add: ready_def waiting_def agent_def reachable_def new_SanctumClient_def node_def
        key_files_def vault_def answer_def connect_def rawConnect_def createConnection_def
        emit_def settle_def authenticate_def loadKey_def expandHome_def DEFAULT_KEY_DIR_def
        hex_value_def hex_encode_def hex_digit_def is_space_def error_new_def
        VaultError_new_def no_opts_def call_defs text_defs)

text \<open>
  \<open>onData\<close> on one whole frame arriving in an empty buffer: the response is
  dispatched, whatever the length that the header declares.
\<close>

lemma onData_frame:
  assumes buf: "buffer st = []"
    and h: "writeUInt32BE (length body) = Inr h"
    and parse: "JSON_parse pf body = Inr (Response resp)"
  shows "onData pf (h @ body) st = (None, dispatch resp (st\<lparr>buffer := []\<rparr>))"
proof -
  have lh: "length h = 4" by (rule length_header [OF h])
  have rd: "readUInt32BE (h @ body) = Inr (length body)"
    using read_write [OF h, of body] .
  have "onData_loop pf (dispatch resp (st\<lparr>buffer := []\<rparr>))
          = (None, dispatch resp (st\<lparr>buffer := []\<rparr>))"
    by (subst onData_loop.simps) simp
  then show ?thesis
    unfolding onData_def
    by (subst onData_loop.simps) (simp add: buf lh rd parse)
qed

lemma length_big_response: "length (response_text big_response) = 4194355"
  by (simp add: response_text_def big_response_def answer_def optional_def json_quote_def
        concat_escape_replicate json_escape_def show_int_def show_nat_digit)

text \<open>
  Claim C2 on a run of the code: a client waits for the response to its call 3, and the
  daemon sends a frame whose header \<open>00 40 00 33\<close> declares 4194355 bytes, more than
  \<open>MAX_MESSAGE_SIZE\<close>. \<open>decodeFrame\<close> refuses these bytes with
  \<open>Response too large\<close>. The receive path of the client does not call
  \<open>decodeFrame\<close> and has no such check: \<open>onData\<close> throws nothing, decodes the body
  and resolves the pending call with it.
\<close>

theorem onData_accepts_large_frame:
  "decodeFrame (parse_among response_text [big_response])
      ([CHR 0x00, CHR 0x40, CHR 0x00, CHR 0x33] @ response_text big_response)
     = Inl (internal_error ''Response too large'')
   \<and> 3 \<in> pending asking
   \<and> fst (onData (node key_files [big_response])
             ([CHR 0x00, CHR 0x40, CHR 0x00, CHR 0x33] @ response_text big_response) asking)
       = None
   \<and> settled (snd (onData (node key_files [big_response])
             ([CHR 0x00, CHR 0x40, CHR 0x00, CHR 0x33] @ response_text big_response) asking)) 3
       = Resolved [(''value'', Str (replicate 4194304 CHR ''6'')), (''lease_id'', Str ''lease-1'')]
   \<and> buffer (snd (onData (node key_files [big_response])
             ([CHR 0x00, CHR 0x40, CHR 0x00, CHR 0x33] @ response_text big_response) asking))
       = []"
proof -
  let ?pf = "node key_files [big_response]"
  let ?h = "[CHR 0x00, CHR 0x40, CHR 0x00, CHR 0x33]"
  have h: "writeUInt32BE (length (response_text big_response)) = Inr ?h"
    by (simp add: length_big_response writeUInt32BE_def char_of_eq_iff)
  have d: "decodeFrame (parse_among response_text [big_response])
             (?h @ response_text big_response @ [])
           = Inl (internal_error ''Response too large'')"
    by (rule decode_too_large [OF h]) (simp add: length_big_response MAX_MESSAGE_SIZE_def)
  have p: "JSON_parse ?pf (response_text big_response) = Inr (Response big_response)"
    by (simp add: node_def response_text_def)
  have b: "buffer asking = []"
    by (simp add: asking_def call_fields session_def new_SanctumClient_def)
  have a: "3 \<in> pending asking"
      "call_resolve big_response
         = Resolved [(''value'', Str (replicate 4194304 CHR ''6'')), (''lease_id'', Str ''lease-1'')]"
    by (simp_all add: asking_def session_def new_SanctumClient_def node_def big_response_def
          answer_def call_def call_resolve_def raiseOnError_def Let_def text_defs)
  have "onData ?pf (?h @ response_text big_response) asking
          = (None, dispatch big_response (asking\<lparr>buffer := []\<rparr>))"
    by (rule onData_frame [OF b h p])
  then show ?thesis using d a by (simp add: dispatch_def big_response_def answer_def)
qed

section \<open>Properties of the handshake and of connect\<close>

text \<open>
  The session id at the end of \<open>authenticate\<close>, whatever its outcome: the one of the
  response to the \<open>authenticate\<close> call when the key loaded and that call resolved,
  and otherwise the one the client had.
\<close>

lemma authenticate_sessionId:
  "sessionId (snd (authenticate pf srv name kp st))
     = (case loadKey pf name kp of
          Inl e \<Rightarrow> sessionId st
        | Inr k \<Rightarrow>
            (case fst (await_call pf srv ''authenticate'' [(''agent_name'', Str name)] st) of
               Pending \<Rightarrow> sessionId st
             | Rejected e \<Rightarrow> sessionId st
             | Resolved r \<Rightarrow> property r ''session_id''))"
proof (cases "loadKey pf name kp")
  case (Inl e)
  then show ?thesis by (simp add: authenticate_def)
next
  case (Inr k)
  obtain out st1 where f: "await_call pf srv ''authenticate'' [(''agent_name'', Str name)] st = (out, st1)"
    by (cases "await_call pf srv ''authenticate'' [(''agent_name'', Str name)] st")
  have s1: "sessionId st1 = sessionId st"
    using await_call_fields(2) [of pf srv "''authenticate''" "[(''agent_name'', Str name)]" st] f
    by simp
  show ?thesis
  proof (cases out)
    case Pending
    with Inr f s1 show ?thesis by (simp add: authenticate_def)
  next
    case (Rejected e)
    with Inr f s1 show ?thesis by (simp add: authenticate_def)
  next
    case (Resolved r)
    let ?st2 = "st1\<lparr>sessionId := property r ''session_id''\<rparr>"
    have keep: "sessionId (snd (await_call pf srv m ps ?st2)) = property r ''session_id''" for m ps
      by (simp add: await_call_fields(2))
    show ?thesis
    proof (cases "Buffer_from_hex pf (property r ''challenge'')")
      case (Inl e)
      with Inr f Resolved show ?thesis by (simp add: authenticate_def)
    next
      case ch: (Inr challenge)
      let ?second = "await_call pf srv ''challenge_response''
             [(''session_id'', property r ''session_id''),
              (''signature'', Str (toString_hex pf (sign_detached pf challenge (secretKey k))))]
             ?st2"
      have "sessionId (snd ?second) = property r ''session_id''" by (rule keep)
      then show ?thesis using Inr f Resolved ch
        by (cases ?second) (auto simp: authenticate_def Let_def split: promise.split)
    qed
  qed
qed

text \<open>
  Claim C3, as amended. The session id of the first response becomes the client's
  session id as soon as that response arrives, before the challenge is answered: at
  the end of \<open>authenticate\<close> it is the client's session id whenever the key loaded
  and the \<open>authenticate\<close> call resolved, whether the \<open>challenge_response\<close> call is
  then confirmed, refused, rejected, never answered or not even sent; in every other
  case the session id is left as it was. When the key loads, the first call resolves
  with \<open>r1\<close> and its challenge decodes, the outcome of \<open>authenticate\<close> is that of
  the \<open>challenge_response\<close> call, which is issued from a state that already holds the
  session id and carries it: pending with it, rejected with it, and on a response
  \<open>AuthError\<close> when \<open>authenticated\<close> is false (or any falsy value), success
  otherwise.
\<close>

theorem handshake_session:
  fixes pf srv name kp st r1 challenge keyPair
  defines "first \<equiv> await_call pf srv ''authenticate'' [(''agent_name'', Str name)] st"
  defines "second \<equiv> await_call pf srv ''challenge_response''
             [(''session_id'', property r1 ''session_id''),
              (''signature'',
                 Str (toString_hex pf (sign_detached pf challenge (secretKey keyPair))))]
             ((snd first)\<lparr>sessionId := property r1 ''session_id''\<rparr>)"
  shows "sessionId (snd (authenticate pf srv name kp st))
           = (case loadKey pf name kp of
                Inl e \<Rightarrow> sessionId st
              | Inr k \<Rightarrow>
                  (case fst first of
                     Pending \<Rightarrow> sessionId st
                   | Rejected e \<Rightarrow> sessionId st
                   | Resolved r \<Rightarrow> property r ''session_id''))
       \<and> (loadKey pf name kp = Inr keyPair \<and> fst first = Resolved r1
            \<and> Buffer_from_hex pf (property r1 ''challenge'') = Inr challenge \<longrightarrow>
          fst (authenticate pf srv name kp st)
            = (case fst second of
                 Pending \<Rightarrow> Pending
               | Rejected e \<Rightarrow> Rejected e
               | Resolved r2 \<Rightarrow>
                   if falsy (property r2 ''authenticated'')
                   then Rejected (Vault (error_new AuthError ''Authentication not confirmed''
                          no_opts))
                   else Resolved ()))"
proof -
  have 1: "sessionId (snd (authenticate pf srv name kp st))
           = (case loadKey pf name kp of
                Inl e \<Rightarrow> sessionId st
              | Inr k \<Rightarrow>
                  (case fst first of
                     Pending \<Rightarrow> sessionId st
                   | Rejected e \<Rightarrow> sessionId st
                   | Resolved r \<Rightarrow> property r ''session_id''))"
    unfolding first_def by (rule authenticate_sessionId)
  have 2: "fst (authenticate pf srv name kp st)
            = (case fst second of
                 Pending \<Rightarrow> Pending
               | Rejected e \<Rightarrow> Rejected e
               | Resolved r2 \<Rightarrow>
                   if falsy (property r2 ''authenticated'')
                   then Rejected (Vault (error_new AuthError ''Authentication not confirmed''
                          no_opts))
                   else Resolved ())"
    if key: "loadKey pf name kp = Inr keyPair" and r1: "fst first = Resolved r1"
      and ch: "Buffer_from_hex pf (property r1 ''challenge'') = Inr challenge"
  proof -
    obtain st1 where f: "first = (Resolved r1, st1)" using r1 by (cases first) auto
    show ?thesis
      using key f ch unfolding first_def second_def authenticate_def
      by (cases "await_call pf srv ''challenge_response''
             [(''session_id'', property r1 ''session_id''),
              (''signature'',
                 Str (toString_hex pf (sign_detached pf challenge (secretKey keyPair))))]
             (st1\<lparr>sessionId := property r1 ''session_id''\<rparr>)")
         (auto simp: Let_def split: promise.split)
  qed
  show ?thesis using 1 2 by blast
qed

text \<open>
  The handshake of the agent with a daemon that confirms it, and with a daemon that
  never answers the challenge response: the session id is stored in both.
\<close>

theorem handshake_session_witness:
  "loadKey (node key_files []) ''my-agent'' None
     = Inr (projr (loadKey (node key_files []) ''my-agent'' None))
   \<and> fst (await_call (node key_files []) (vault True Releases) ''authenticate''
          [(''agent_name'', Str ''my-agent'')] connected)
     = Resolved [(''session_id'', Str ''sess-1''), (''challenge'', Str ''c0ffee'')]
   \<and> fst (authenticate (node key_files []) (vault True Releases) ''my-agent'' None connected)
       = Resolved ()
   \<and> sessionId (snd (authenticate (node key_files []) (vault True Releases) ''my-agent'' None
        connected)) = Str ''sess-1''
   \<and> fst (authenticate (node key_files []) challenger ''my-agent'' None connected) = Pending
   \<and> sessionId (snd (authenticate (node key_files []) challenger ''my-agent'' None connected))
       = Str ''sess-1''"
  using handshake_session [where pf = "node key_files []" and srv = "vault True Releases"
      and name = "''my-agent''" and kp = None and st = connected
      and ?r1.0 = "[(''session_id'', Str ''sess-1''), (''challenge'', Str ''c0ffee'')]"
      and keyPair = "projr (loadKey (node key_files []) ''my-agent'' None)"
      and challenge = "hex_decode ''c0ffee''"]
    handshake_session [where pf = "node key_files []" and srv = challenger
      and name = "''my-agent''" and kp = None and st = connected
      and ?r1.0 = "[(''session_id'', Str ''sess-1''), (''challenge'', Str ''c0ffee'')]"
      and keyPair = "projr (loadKey (node key_files []) ''my-agent'' None)"
      and challenge = "hex_decode ''c0ffee''"]
  by (simp add: connected_def challenger_def agent_def reachable_def new_SanctumClient_def
        node_def key_files_def vault_def answer_def rawConnect_def createConnection_def
        emit_def settle_def authenticate_def loadKey_def expandHome_def DEFAULT_KEY_DIR_def
        hex_value_def hex_encode_def hex_digit_def is_space_def error_new_def
        VaultError_new_def no_opts_def call_defs text_defs)

text \<open>
  Claim C3 as stated fails when the daemon answers \<open>authenticated: false\<close>: the call
  fails with \<open>AuthError\<close>, as claimed, but the client that had no session id before
  now holds \<open>sess-1\<close>, and a \<open>retrieve\<close> issued afterwards sends it.
\<close>

theorem handshake_session_counterexample:
  "sessionId connected = Null
   \<and> fst (authenticate (node key_files []) (vault False Releases) ''my-agent'' None connected)
       = Rejected (Vault \<lparr>cls = AuthError, message = ''Authentication not confirmed'',
           code = ''AUTH_FAILED'', detail = None, suggestion = None, docsUrl = None,
           err_context = []\<rparr>)
   \<and> sessionId (snd (authenticate (node key_files []) (vault False Releases) ''my-agent'' None
        connected)) = Str ''sess-1''
   \<and> last (invoked (snd (retrieve (node key_files []) (vault False Releases) ''openai/api_key''
        None (snd (authenticate (node key_files []) (vault False Releases) ''my-agent'' None
        connected)))))
       = (''retrieve'', [(''session_id'', Str ''sess-1''), (''path'', Str ''openai/api_key'')])"
  by (simp add: connected_def agent_def reachable_def new_SanctumClient_def node_def
        key_files_def vault_def answer_def rawConnect_def createConnection_def emit_def
        settle_def authenticate_def loadKey_def expandHome_def DEFAULT_KEY_DIR_def
        hex_value_def hex_encode_def hex_digit_def is_space_def error_new_def
        VaultError_new_def no_opts_def retrieve_def call_defs text_defs)

text \<open>
  Claim C4, as amended. On a client that holds a non-empty host and a port other than
  0, \<open>connect\<close> without a target does not fail whatever the stored socket path is:
  it opens a TCP connection to the host and port, ignoring the path, and once the
  transport has connected its outcome is that of the handshake. (A port above 65535
  is refused by \<open>net.createConnection\<close>, with or without a socket path.) Given a
  socket path as its target, \<open>connect\<close> does not fail whatever host and port are
  stored either: it stores the path, clears the host, and connects to the path.
\<close>

theorem connect_prefers_tcp:
  "(host st = Some h \<and> h \<noteq> [] \<and> port st = Some p \<and> p \<noteq> 0
      \<and> net (TcpOptions h p) = Connects \<longrightarrow>
    connect pf net srv None st
      = (if p \<le> 65535
         then authenticate pf srv (agentName st) (keyPath st)
                (st\<lparr>socket := Some \<lparr>options = TcpOptions h p,
                                    data_listeners = [OnDataListener],
                                    error_listeners = [],
                                    connect_listeners = [],
                                    written = []\<rparr>,
                    connecting := Resolved ()\<rparr>)
         else (Rejected (RangeError ''ERR_SOCKET_BAD_PORT''),
               st\<lparr>connecting := Rejected (RangeError ''ERR_SOCKET_BAD_PORT'')\<rparr>)))
   \<and> (net (PathOptions (expandHome pf sp)) = Connects \<longrightarrow>
        connect pf net srv (Some (SocketPath sp)) st
          = authenticate pf srv (agentName st) (keyPath st)
              (st\<lparr>socketPath := Some sp,
                  host := None,
                  socket := Some \<lparr>options = PathOptions (expandHome pf sp),
                                  data_listeners = [OnDataListener],
                                  error_listeners = [],
                                  connect_listeners = [],
                                  written = []\<rparr>,
                  connecting := Resolved ()\<rparr>))"
  by (simp add: connect_def rawConnect_def createConnection_def emit_def settle_def Let_def)

text \<open>
  The agent, constructed with both a socket path and a host and port: connecting as it
  is, and connecting to another socket path.
\<close>

theorem connect_prefers_tcp_witness:
  "socketPath agent = Some ''/tmp/vault.sock''
   \<and> host agent = Some ''127.0.0.1'' \<and> port agent = Some 8200
   \<and> reachable (TcpOptions ''127.0.0.1'' 8200) = Connects
   \<and> connect (node key_files []) reachable (vault True Releases) None agent
       = authenticate (node key_files []) (vault True Releases) (agentName agent) (keyPath agent)
           (agent\<lparr>socket := Some \<lparr>options = TcpOptions ''127.0.0.1'' 8200,
                                   data_listeners = [OnDataListener],
                                   error_listeners = [],
                                   connect_listeners = [],
                                   written = []\<rparr>,
                   connecting := Resolved ()\<rparr>)
   \<and> reachable (PathOptions (expandHome (node key_files []) ''~/other.sock'')) = Connects
   \<and> connect (node key_files []) reachable (vault True Releases)
         (Some (SocketPath ''~/other.sock'')) agent
       = authenticate (node key_files []) (vault True Releases) (agentName agent) (keyPath agent)
           (agent\<lparr>socketPath := Some ''~/other.sock'',
                   host := None,
                   socket := Some \<lparr>options = PathOptions ''/home/agent/other.sock'',
                                   data_listeners = [OnDataListener],
                                   error_listeners = [],
                                   connect_listeners = [],
                                   written = []\<rparr>,
                   connecting := Resolved ()\<rparr>)"
  using connect_prefers_tcp [of agent "''127.0.0.1''" 8200 reachable "node key_files []"
      "vault True Releases" "''~/other.sock''"]
  by (simp add: agent_def new_SanctumClient_def reachable_def expandHome_def node_def)

text \<open>
  Claim C4 as stated fails on the agent constructed with the socket path
  \<open>/tmp/vault.sock\<close> and the host and port \<open>127.0.0.1:8200\<close>: \<open>connect\<close> resolves,
  over a TCP connection.
\<close>

theorem connect_prefers_tcp_counterexample:
  "socketPath agent = Some ''/tmp/vault.sock'' \<and> host agent = Some ''127.0.0.1''
   \<and> port agent = Some 8200
   \<and> fst (connect (node key_files []) reachable (vault True Releases) None agent) = Resolved ()
   \<and> map_option options (socket (snd (connect (node key_files []) reachable
         (vault True Releases) None agent))) = Some (TcpOptions ''127.0.0.1'' 8200)"
  by (simp add: agent_def reachable_def new_SanctumClient_def node_def key_files_def
        vault_def answer_def connect_def rawConnect_def createConnection_def emit_def
        settle_def authenticate_def loadKey_def expandHome_def DEFAULT_KEY_DIR_def
        hex_value_def hex_encode_def hex_digit_def is_space_def error_new_def
        VaultError_new_def no_opts_def call_defs text_defs)

section \<open>Properties of the lease set\<close>

lemma onData_loop_leases: "leases (snd (onData_loop pf st)) = leases st"
proof (induction pf st rule: onData_loop.induct)
  case (1 pf st)
  show ?case
    by (subst onData_loop.simps) (auto simp: 1 split: sum.split parsed.split)
qed

lemma onData_leases: "leases (snd (onData pf chunk st)) = leases st"
  by (simp add: onData_def onData_loop_leases)

lemma run_listener_leases: "leases (snd (run_listener pf ev l st)) = leases st"
  by (cases "(pf, ev, l, st)" rule: run_listener.cases)
     (auto simp: onData_leases split: option.split)

lemma run_listeners_leases: "leases (snd (run_listeners pf ev ls st)) = leases st"
proof (induction ls arbitrary: st)
  case Nil
  then show ?case by simp
next
  case (Cons l ls)
  then show ?case using run_listener_leases [of pf ev l st]
    by (cases "run_listener pf ev l st") (auto split: option.split)
qed

lemma emit_leases: "leases (snd (emit pf ev st)) = leases st"
  by (auto simp: emit_def run_listeners_leases split: option.split event.split)

lemma authenticate_leases: "leases (snd (authenticate pf srv name kp st)) = leases st"
proof -
  have a: "leases (snd (await_call pf srv m ps s)) = leases s" for m ps s
    by (rule await_call_fields)
  show ?thesis
    unfolding authenticate_def Let_def
    by (auto split: sum.split prod.split promise.split simp: a
          dest!: arg_cong [where f = "\<lambda>x. leases (snd x)"])
qed

lemma rawConnect_leases: "leases (rawConnect pf st) = leases st"
  by (simp add: rawConnect_def Let_def split: sum.split)

lemma connect_leases: "leases (snd (connect pf net srv target st)) = leases st"
proof -
  define st1 where "st1 = (case target of
                   None \<Rightarrow> st
                 | Some (SocketPath p) \<Rightarrow> st\<lparr>socketPath := Some p, host := None\<rparr>
                 | Some (HostPort h p) \<Rightarrow>
                     st\<lparr>host := Some h, port := Some p, socketPath := None\<rparr>)"
  define st2 where "st2 = rawConnect pf st1"
  define st3 where "st3 = (case connecting st2 of
                   Rejected e \<Rightarrow> st2
                 | Resolved u \<Rightarrow> st2
                 | Pending \<Rightarrow>
                     (case socket st2 of
                        None \<Rightarrow> st2
                      | Some sock \<Rightarrow>
                          (case net (options sock) of
                             Connects \<Rightarrow> snd (emit pf Connect st2)
                           | Fails e \<Rightarrow> snd (emit pf (Error e) st2)
                           | Hangs \<Rightarrow> st2)))"
  have 1: "leases st1 = leases st"
    by (simp add: st1_def split: option.split ConnectionTarget.split)
  have 2: "leases st2 = leases st" by (simp add: st2_def rawConnect_leases 1)
  have 3: "leases st3 = leases st"
    by (simp add: st3_def emit_leases 2 split: option.split net_outcome.split promise.split)
  have "connect pf net srv target st = (case connecting st3 of
           Pending \<Rightarrow> (Pending, st3)
         | Rejected e \<Rightarrow> (Rejected e, st3)
         | Resolved u \<Rightarrow> authenticate pf srv (agentName st3) (keyPath st3) st3)"
    unfolding connect_def Let_def st3_def st2_def st1_def by (rule refl)
  then show ?thesis by (simp add: 3 authenticate_leases split: promise.split)
qed

lemma list_leases: "leases (snd (list pf srv st)) = leases st"
  using await_call_fields(1) [of pf srv "''list''" "[(''session_id'', sessionId st)]" st]
  by (auto simp: list_def split: prod.split promise.split)

lemma use_leases: "leases (snd (use pf srv p operation params st)) = leases st"
  by (simp add: use_def Let_def await_call_fields)

lemma retrieve_tracks:
  assumes "fst (retrieve pf srv p ttl st) = Resolved secret"
  shows "\<exists>resp. srv \<lparr>req_id = reqId st + 1, req_method = ''retrieve'',
                      req_params = [(''session_id'', sessionId st), (''path'', Str p)]
                         @ (case ttl of None \<Rightarrow> [] | Some t \<Rightarrow> [(''ttl'', Num t)])\<rparr> = Some resp
           \<and> raiseOnError resp = None
           \<and> property (case result resp of None \<Rightarrow> [] | Some r \<Rightarrow> r) ''lease_id''
                \<in> set (leases (snd (retrieve pf srv p ttl st)))"
proof -
  let ?ps = "[(''session_id'', sessionId st), (''path'', Str p)]
                         @ (case ttl of None \<Rightarrow> [] | Some t \<Rightarrow> [(''ttl'', Num t)])"
  obtain out st1 where a: "await_call pf srv ''retrieve'' ?ps st = (out, st1)"
    by (cases "await_call pf srv ''retrieve'' ?ps st")
  from assms a obtain r where out: "out = Resolved r"
    by (cases out) (auto simp: retrieve_def Let_def)
  from a out have "fst (await_call pf srv ''retrieve'' ?ps st) = Resolved r" by simp
  from await_call_resolved [OF this] obtain resp where
    resp: "srv \<lparr>req_id = reqId st + 1, req_method = ''retrieve'', req_params = ?ps\<rparr> = Some resp"
      "raiseOnError resp = None"
      "r = (case result resp of None \<Rightarrow> [] | Some x \<Rightarrow> x)" by blast
  have "property r ''lease_id'' \<in> set (leases (snd (retrieve pf srv p ttl st)))"
    using a out by (auto simp: retrieve_def Let_def split: sum.split)
  with resp show ?thesis by blast
qed

lemma releaseLease_removes:
  assumes "fst (releaseLease pf srv l st) = Resolved ()"
  shows "l \<notin> set (leases (snd (releaseLease pf srv l st)))"
  using assms by (auto simp: releaseLease_def split: prod.splits promise.splits)

text \<open>
  Claim C8. When \<open>retrieve\<close> resolves, the daemon has answered its request without
  an error, and the \<open>lease_id\<close> of that answer is among the leases of the client.
  When \<open>releaseLease\<close> resolves, the lease id it was given is not among the leases,
  whether it was before or not. And no other operation changes the leases:
  \<open>connect\<close>, \<open>authenticate\<close>, \<open>list\<close>, \<open>use\<close>, \<open>call\<close> and the events of the
  socket, with the receive path among them, leave them as they are (\<open>close\<close> changes
  them through \<open>releaseLease\<close> alone).
\<close>

theorem lease_set:
  "(fst (retrieve pf srv p ttl st) = Resolved secret \<longrightarrow>
      (\<exists>resp. srv \<lparr>req_id = reqId st + 1, req_method = ''retrieve'',
                     req_params = [(''session_id'', sessionId st), (''path'', Str p)]
                        @ (case ttl of None \<Rightarrow> [] | Some t \<Rightarrow> [(''ttl'', Num t)])\<rparr> = Some resp
          \<and> raiseOnError resp = None
          \<and> property (case result resp of None \<Rightarrow> [] | Some r \<Rightarrow> r) ''lease_id''
               \<in> set (leases (snd (retrieve pf srv p ttl st)))))
   \<and> (fst (releaseLease pf srv l st) = Resolved () \<longrightarrow>
         l \<notin> set (leases (snd (releaseLease pf srv l st))))
   \<and> leases (snd (connect pf net srv target st)) = leases st
   \<and> leases (snd (authenticate pf srv name kp st)) = leases st
   \<and> leases (snd (list pf srv st)) = leases st
   \<and> leases (snd (use pf srv p operation params st)) = leases st
   \<and> leases (snd (call pf method ps st)) = leases st
   \<and> leases (snd (emit pf ev st)) = leases st"
  using retrieve_tracks [of pf srv p ttl st secret] releaseLease_removes [of pf srv l st]
  by (simp add: connect_leases authenticate_leases list_leases use_leases call_fields emit_leases)

text \<open>
  A \<open>retrieve\<close> that resolves with the secret \<open>hello\<close> and the lease \<open>lease-1\<close>,
  and a release of the lease held before.
\<close>

theorem lease_set_witness:
  "fst (retrieve (node key_files []) (vault True Releases) ''openai/api_key'' None
          (session [Str ''lease-0''])) = Resolved ''hello''
   \<and> leases (snd (retrieve (node key_files []) (vault True Releases) ''openai/api_key'' None
          (session [Str ''lease-0'']))) = [Str ''lease-0'', Str ''lease-1'']
   \<and> fst (releaseLease (node key_files []) (vault True Releases) (Str ''lease-0'')
          (session [Str ''lease-0''])) = Resolved ()
   \<and> leases (snd (releaseLease (node key_files []) (vault True Releases) (Str ''lease-0'')
          (session [Str ''lease-0'']))) = []"
  using lease_set [of "node key_files []" "vault True Releases" "''openai/api_key''" None
      "session [Str ''lease-0'']" "''hello''" "Str ''lease-0''"]
  by (simp add: session_def new_SanctumClient_def node_def vault_def answer_def retrieve_def
        releaseLease_def hex_value_def call_defs text_defs)





















end
